theory Spec2Isabelle
  imports Main "HOL-Library.Char_ord" "HOL-Library.List_Lexorder"
begin

section \<open>The tables (server/init\_db.js)\<close>

text \<open>
  The server keeps its whole state in a SQLite database; each request handler is a
  sequence of SQL statements on it. The model passes the database explicitly: a handler
  takes the request and the database and returns the HTTP response and the new database.

  A time column holds TEXT and every comparison of the handlers goes through SQLite's
  \<^verbatim>\<open>datetime(...)\<close>, which yields NULL for a text that is no time value and otherwise a
  text of the form \<^verbatim>\<open>YYYY-MM-DD HH:MM:SS\<close>. The handlers compare these texts, and SQLite
  compares texts byte by byte. A time value is kept as what \<^verbatim>\<open>datetime\<close> makes of it:
  \<open>None\<close> for NULL, \<open>Some t\<close> for the text \<open>t\<close>; the order on \<open>string\<close> is the
  lexicographic order of the bytes. \<^verbatim>\<open>datetime\<close> copies an hour 24 as it is written
  (\<^verbatim>\<open>datetime('2026-11-02 24:30')\<close> is \<^verbatim>\<open>2026-11-02 24:30:00\<close>), so the order of the
  texts is not always the order of the instants they denote.

  Record fields carry a prefix (\<open>r_\<close>, \<open>w_\<close>, \<open>c_\<close>, \<open>p_\<close>) since the tables share
  their column names. Of \<^verbatim>\<open>courts\<close> and \<^verbatim>\<open>players\<close> the handlers below read the
  \<^verbatim>\<open>id\<close> only (in their JOINs); \<^verbatim>\<open>is_active\<close> is kept to show that nothing reads it.
\<close>

type_synonym timetext = "string option"

text \<open>
  The texts of the times of 2 November 2026 and of the day after: \<open>at 9 30\<close> is
  \<^verbatim>\<open>2026-11-02 09:30:00\<close>.
\<close>

definition digit :: "nat \<Rightarrow> char" where
  "digit n = ''0123456789'' ! n"

definition two_digits :: "nat \<Rightarrow> string" where
  "two_digits n = [digit (n div 10), digit (n mod 10)]"

definition at :: "nat \<Rightarrow> nat \<Rightarrow> timetext" where
  "at h m = Some (''2026-11-02 '' @ two_digits h @ '':'' @ two_digits m @ '':00'')"

definition next_day_at :: "nat \<Rightarrow> nat \<Rightarrow> timetext" where
  "next_day_at h m = Some (''2026-11-03 '' @ two_digits h @ '':'' @ two_digits m @ '':00'')"

record court =
  c_id :: int
  c_is_active :: int

record player =
  p_id :: int

record reservation =
  r_id :: int
  r_court_id :: int
  r_player_id :: int
  r_start_time :: timetext
  r_end_time :: timetext
  r_status :: string
  r_price_cents :: int
  r_created_at :: int

record waitlist_entry =
  w_id :: int
  w_court_id :: int
  w_player_id :: int
  w_start_time :: timetext
  w_end_time :: timetext
  w_priority :: int
  w_status :: string
  w_created_at :: int

text \<open>
  \<open>reservations_seq\<close> and \<open>waitlist_seq\<close> are the rows of \<^verbatim>\<open>sqlite_sequence\<close> that
  \<^verbatim>\<open>AUTOINCREMENT\<close> maintains for the two tables.
\<close>

record db =
  courts :: "court list"
  players :: "player list"
  reservations :: "reservation list"
  reservations_seq :: int
  waitlist :: "waitlist_entry list"
  waitlist_seq :: int

text \<open>
  The database that \<^verbatim>\<open>init()\<close> of init\_db.js leaves: the tables dropped and created,
  five players, three courts and two reservations of the day it runs, 09:00 to 10:00 on
  court 1 (\<^verbatim>\<open>booked\<close>) and 11:00 to 12:00 on court 2 (\<^verbatim>\<open>completed\<close>), and an empty
  waitlist. \<open>now\<close> is the clock reading that \<^verbatim>\<open>datetime('now')\<close> gives \<^verbatim>\<open>created_at\<close>.
\<close>

definition init :: "int \<Rightarrow> db" where
  "init now =
     \<lparr>courts = [\<lparr>c_id = 1, c_is_active = 1\<rparr>, \<lparr>c_id = 2, c_is_active = 1\<rparr>,
                \<lparr>c_id = 3, c_is_active = 1\<rparr>],
      players = [\<lparr>p_id = 1\<rparr>, \<lparr>p_id = 2\<rparr>, \<lparr>p_id = 3\<rparr>, \<lparr>p_id = 4\<rparr>, \<lparr>p_id = 5\<rparr>],
      reservations =
        [\<lparr>r_id = 1, r_court_id = 1, r_player_id = 1, r_start_time = at 9 0,
          r_end_time = at 10 0, r_status = ''booked'', r_price_cents = 100000,
          r_created_at = now\<rparr>,
         \<lparr>r_id = 2, r_court_id = 2, r_player_id = 2, r_start_time = at 11 0,
          r_end_time = at 12 0, r_status = ''completed'', r_price_cents = 100000,
          r_created_at = now\<rparr>],
      reservations_seq = 2,
      waitlist = [], waitlist_seq = 0\<rparr>"

section \<open>SQL expressions\<close>

text \<open>
  SQL's logic has three values; \<open>None\<close> is NULL. A \<^verbatim>\<open>WHERE\<close> clause keeps a row only
  when it evaluates to TRUE.
\<close>

type_synonym sqlbool = "bool option"

definition sql_le :: "timetext \<Rightarrow> timetext \<Rightarrow> sqlbool" where
  "sql_le a b = (case a of None \<Rightarrow> None
                 | Some x \<Rightarrow> (case b of None \<Rightarrow> None | Some y \<Rightarrow> Some (x \<le> y)))"

definition sql_ge :: "timetext \<Rightarrow> timetext \<Rightarrow> sqlbool" where
  "sql_ge a b = (case a of None \<Rightarrow> None
                 | Some x \<Rightarrow> (case b of None \<Rightarrow> None | Some y \<Rightarrow> Some (x \<ge> y)))"

fun sql_not :: "sqlbool \<Rightarrow> sqlbool" where
  "sql_not None = None"
| "sql_not (Some b) = Some (\<not> b)"

definition sql_or :: "sqlbool \<Rightarrow> sqlbool \<Rightarrow> sqlbool" where
  "sql_or a b = (if a = Some True \<or> b = Some True then Some True
                 else if a = Some False \<and> b = Some False then Some False
                 else None)"

definition sql_and :: "sqlbool \<Rightarrow> sqlbool \<Rightarrow> sqlbool" where
  "sql_and a b = (if a = Some False \<or> b = Some False then Some False
                  else if a = Some True \<and> b = Some True then Some True
                  else None)"

definition is_true :: "sqlbool \<Rightarrow> bool" where
  "is_true b = (b = Some True)"

text \<open>
  The conflict query, the same text in \<^verbatim>\<open>POST /api/reservations\<close> and in
  \<^verbatim>\<open>PATCH /api/waitlist/:id\<close>:
  \<^verbatim>\<open>
  SELECT id FROM reservations
   WHERE court_id = ?
     AND status IN ('booked','completed')
     AND NOT (datetime(end_time) <= datetime(?) OR datetime(start_time) >= datetime(?))
  \<close>
  with the parameters \<^verbatim>\<open>[court_id, start_time, end_time]\<close>.
\<close>

definition conflict_where :: "int \<Rightarrow> timetext \<Rightarrow> timetext \<Rightarrow> reservation \<Rightarrow> sqlbool" where
  "conflict_where court_id start_time end_time r =
     sql_and (Some (r_court_id r = court_id))
       (sql_and (Some (r_status r = ''booked'' \<or> r_status r = ''completed''))
          (sql_not (sql_or (sql_le (r_end_time r) start_time)
                           (sql_ge (r_start_time r) end_time))))"

definition select_conflicts :: "db \<Rightarrow> int \<Rightarrow> timetext \<Rightarrow> timetext \<Rightarrow> int list" where
  "select_conflicts d court_id start_time end_time =
     map r_id (filter (\<lambda>r. is_true (conflict_where court_id start_time end_time r))
                      (reservations d))"

section \<open>SQL statements\<close>

text \<open>
  The CHECK constraints of the two \<^verbatim>\<open>status\<close> columns. No handler switches
  \<^verbatim>\<open>PRAGMA foreign_keys\<close> on, so the FOREIGN KEY clauses are not enforced.
\<close>

definition reservation_status_check :: "string \<Rightarrow> bool" where
  "reservation_status_check s = (s = ''booked'' \<or> s = ''cancelled'' \<or> s = ''completed'')"

definition waitlist_status_check :: "string \<Rightarrow> bool" where
  "waitlist_status_check s =
     (s = ''waiting'' \<or> s = ''notified'' \<or> s = ''booked'' \<or> s = ''cancelled'' \<or> s = ''expired'')"

text \<open>
  \<^verbatim>\<open>INTEGER PRIMARY KEY AUTOINCREMENT\<close>: the new rowid is one more than the largest
  rowid the table has ever held, which is the larger of the table's \<^verbatim>\<open>sqlite_sequence\<close>
  row and the rowids present.
\<close>

definition next_rowid :: "int \<Rightarrow> int list \<Rightarrow> int" where
  "next_rowid seq ids = fold max ids seq + 1"

datatype js_error = ReferenceError | TypeError | SqliteError

definition insert_reservation ::
  "int \<Rightarrow> int \<Rightarrow> timetext \<Rightarrow> timetext \<Rightarrow> string \<Rightarrow> int \<Rightarrow> int \<Rightarrow> db \<Rightarrow> js_error + (int \<times> db)" where
  "insert_reservation court_id player_id start_time end_time status price_cents now d =
     (if \<not> reservation_status_check status then Inl SqliteError
      else
        let lastID = next_rowid (reservations_seq d) (map r_id (reservations d)) in
        Inr (lastID,
             d\<lparr>reservations := reservations d @
                  [\<lparr>r_id = lastID, r_court_id = court_id, r_player_id = player_id,
                    r_start_time = start_time, r_end_time = end_time, r_status = status,
                    r_price_cents = price_cents, r_created_at = now\<rparr>],
               reservations_seq := lastID\<rparr>))"

definition insert_waitlist ::
  "int \<Rightarrow> int \<Rightarrow> timetext \<Rightarrow> timetext \<Rightarrow> int \<Rightarrow> string \<Rightarrow> int \<Rightarrow> db \<Rightarrow> js_error + (int \<times> db)" where
  "insert_waitlist court_id player_id start_time end_time priority status now d =
     (if \<not> waitlist_status_check status then Inl SqliteError
      else
        let lastID = next_rowid (waitlist_seq d) (map w_id (waitlist d)) in
        Inr (lastID,
             d\<lparr>waitlist := waitlist d @
                  [\<lparr>w_id = lastID, w_court_id = court_id, w_player_id = player_id,
                    w_start_time = start_time, w_end_time = end_time, w_priority = priority,
                    w_status = status, w_created_at = now\<rparr>],
               waitlist_seq := lastID\<rparr>))"

text \<open>
  The SELECT that reads one row back joins \<^verbatim>\<open>courts\<close> and \<^verbatim>\<open>players\<close>: a row whose
  court or player is missing is not returned, and \<^verbatim>\<open>getAsync\<close> then resolves to
  \<^verbatim>\<open>undefined\<close>. The names the join adds to the row are left out.
\<close>

definition select_reservation :: "db \<Rightarrow> int \<Rightarrow> reservation option" where
  "select_reservation d i =
     find (\<lambda>r. r_id r = i \<and> (\<exists>c \<in> set (courts d). c_id c = r_court_id r)
                         \<and> (\<exists>p \<in> set (players d). p_id p = r_player_id r))
          (reservations d)"

definition select_waitlist :: "db \<Rightarrow> int \<Rightarrow> waitlist_entry option" where
  "select_waitlist d i =
     find (\<lambda>w. w_id w = i \<and> (\<exists>c \<in> set (courts d). c_id c = w_court_id w)
                         \<and> (\<exists>p \<in> set (players d). p_id p = w_player_id w))
          (waitlist d)"

definition delete_reservation_rows :: "int \<Rightarrow> db \<Rightarrow> db" where
  "delete_reservation_rows i d = d\<lparr>reservations := filter (\<lambda>r. r_id r \<noteq> i) (reservations d)\<rparr>"

definition delete_waitlist_rows :: "int \<Rightarrow> db \<Rightarrow> db" where
  "delete_waitlist_rows i d = d\<lparr>waitlist := filter (\<lambda>w. w_id w \<noteq> i) (waitlist d)\<rparr>"

text \<open>
  The PATCH handlers build \<^verbatim>\<open>UPDATE t SET k1 = ?, k2 = ? ... WHERE id = ?\<close> from the keys
  of the request body. A patch is the body: one optional value per column. Bodies are
  taken to name columns other than \<^verbatim>\<open>id\<close> and \<^verbatim>\<open>created_at\<close> and to give each a value
  of the column's type. A body with no key gives \<^verbatim>\<open>UPDATE t SET  WHERE id = ?\<close>, which
  SQLite rejects; a CHECK constraint that fails on an updated row aborts the statement and
  leaves the table as it was.
\<close>

record reservation_patch =
  rp_court_id :: "int option"
  rp_player_id :: "int option"
  rp_start_time :: "timetext option"
  rp_end_time :: "timetext option"
  rp_status :: "string option"
  rp_price_cents :: "int option"

record waitlist_patch =
  wp_court_id :: "int option"
  wp_player_id :: "int option"
  wp_start_time :: "timetext option"
  wp_end_time :: "timetext option"
  wp_priority :: "int option"
  wp_status :: "string option"

definition set_column :: "'a option \<Rightarrow> 'a \<Rightarrow> 'a" where
  "set_column v old = (case v of None \<Rightarrow> old | Some x \<Rightarrow> x)"

definition reservation_set :: "reservation_patch \<Rightarrow> reservation \<Rightarrow> reservation" where
  "reservation_set p r =
     r\<lparr>r_court_id := set_column (rp_court_id p) (r_court_id r),
       r_player_id := set_column (rp_player_id p) (r_player_id r),
       r_start_time := set_column (rp_start_time p) (r_start_time r),
       r_end_time := set_column (rp_end_time p) (r_end_time r),
       r_status := set_column (rp_status p) (r_status r),
       r_price_cents := set_column (rp_price_cents p) (r_price_cents r)\<rparr>"

definition waitlist_set :: "waitlist_patch \<Rightarrow> waitlist_entry \<Rightarrow> waitlist_entry" where
  "waitlist_set p w =
     w\<lparr>w_court_id := set_column (wp_court_id p) (w_court_id w),
       w_player_id := set_column (wp_player_id p) (w_player_id w),
       w_start_time := set_column (wp_start_time p) (w_start_time w),
       w_end_time := set_column (wp_end_time p) (w_end_time w),
       w_priority := set_column (wp_priority p) (w_priority w),
       w_status := set_column (wp_status p) (w_status w)\<rparr>"

definition reservation_patch_empty :: "reservation_patch \<Rightarrow> bool" where
  "reservation_patch_empty p =
     (rp_court_id p = None \<and> rp_player_id p = None \<and> rp_start_time p = None \<and>
      rp_end_time p = None \<and> rp_status p = None \<and> rp_price_cents p = None)"

definition waitlist_patch_empty :: "waitlist_patch \<Rightarrow> bool" where
  "waitlist_patch_empty p =
     (wp_court_id p = None \<and> wp_player_id p = None \<and> wp_start_time p = None \<and>
      wp_end_time p = None \<and> wp_priority p = None \<and> wp_status p = None)"

definition update_reservations :: "int \<Rightarrow> reservation_patch \<Rightarrow> db \<Rightarrow> js_error + db" where
  "update_reservations i p d =
     (if reservation_patch_empty p then Inl SqliteError
      else
        let rows = map (\<lambda>r. if r_id r = i then reservation_set p r else r) (reservations d) in
        if \<exists>r \<in> set rows. r_id r = i \<and> \<not> reservation_status_check (r_status r)
        then Inl SqliteError
        else Inr (d\<lparr>reservations := rows\<rparr>))"

definition update_waitlist :: "int \<Rightarrow> waitlist_patch \<Rightarrow> db \<Rightarrow> js_error + db" where
  "update_waitlist i p d =
     (if waitlist_patch_empty p then Inl SqliteError
      else
        let rows = map (\<lambda>w. if w_id w = i then waitlist_set p w else w) (waitlist d) in
        if \<exists>w \<in> set rows. w_id w = i \<and> \<not> waitlist_status_check (w_status w)
        then Inl SqliteError
        else Inr (d\<lparr>waitlist := rows\<rparr>))"

section \<open>The request handlers\<close>

datatype json =
    Json_error js_error
  | Json_message string
  | Json_reservation reservation
  | Json_waitlist waitlist_entry
  | Json_undefined
  | Json_ok

record response =
  code :: nat
  body :: json

text \<open>
  The body of \<^verbatim>\<open>POST /api/reservations\<close>, as the handler destructures it:
  \<^verbatim>\<open>const { court_id, player_id, start_time, end_time, price_cents, status } = req.body\<close>.
  A booking request names its court, its player and its two times (the NOT NULL columns
  of the tables); \<^verbatim>\<open>price_cents\<close> and \<^verbatim>\<open>status\<close> may be absent. JavaScript's \<^verbatim>\<open>x || d\<close> is \<^verbatim>\<open>d\<close> when \<^verbatim>\<open>x\<close> is
  absent, \<^verbatim>\<open>0\<close> or the empty string.
\<close>

record reservation_body =
  b_court_id :: int
  b_player_id :: int
  b_start_time :: timetext
  b_end_time :: timetext
  b_price_cents :: "int option"
  b_status :: "string option"



text \<open>
  The handler's argument list for its INSERT ends in \<^verbatim>\<open>payment_status || 'unpaid'\<close>.
  The name \<^verbatim>\<open>payment_status\<close> is not among the six the handler destructures and the
  module binds it nowhere else in scope (the only \<^verbatim>\<open>payment_status\<close> binding is local to
  the event registration handler), so reading it throws a ReferenceError, before
  \<^verbatim>\<open>runAsync\<close> is called. The handler's \<^verbatim>\<open>catch\<close> answers 500.
\<close>

definition payment_status :: "js_error + string option" where
  "payment_status = Inl ReferenceError"

text \<open>
  \<^verbatim>\<open>
  const conflicts = await allAsync(<conflict query>, [court_id, start_time, end_time]);
  if (conflicts.length > 0) {
    await runAsync('INSERT INTO waitlist (court_id, player_id, start_time, end_time,
                    priority, status) VALUES (?,?,?,?,0, "waiting")', [...]);
    return res.status(409).json({ error: 'Court is already booked at this time. Added to waitlist.' });
  }
  const result = await runAsync('INSERT INTO reservations (court_id, player_id, start_time,
      end_time, status, price_cents, payment_status) VALUES (?,?,?,?,?,?,?)',
    [court_id, player_id, start_time, end_time, status || 'booked', price_cents || 0,
     payment_status || 'unpaid']);
  const row = await getAsync(<select the row result.lastID>);
  res.status(201).json(row);
  \<close>
  all inside \<^verbatim>\<open>try { ... } catch (err) { res.status(500).json({ error: err.message }) }\<close>.
  SQLite reads the double-quoted \<^verbatim>\<open>"waiting"\<close> as the string, there being no column of
  that name (init\_db.js writes its own string literals the same way).
  The \<^verbatim>\<open>reservations\<close> table of init\_db.js has no column \<^verbatim>\<open>payment_status\<close>, so the
  INSERT, were it reached, would be rejected by SQLite.
\<close>

definition post_reservations :: "reservation_body \<Rightarrow> int \<Rightarrow> db \<Rightarrow> response \<times> db" where
  "post_reservations b now d =
     (let conflicts = select_conflicts d (b_court_id b) (b_start_time b) (b_end_time b) in
      if length conflicts > 0 then
        (case insert_waitlist (b_court_id b) (b_player_id b) (b_start_time b) (b_end_time b)
                0 ''waiting'' now d of
           Inl err \<Rightarrow> (\<lparr>code = 500, body = Json_error err\<rparr>, d)
         | Inr (lastID, d') \<Rightarrow>
             (\<lparr>code = 409,
               body = Json_message ''Court is already booked at this time. Added to waitlist.''\<rparr>,
              d'))
      else
        (case payment_status of
           Inl err \<Rightarrow> (\<lparr>code = 500, body = Json_error err\<rparr>, d)
         | Inr ps \<Rightarrow> (\<lparr>code = 500, body = Json_error SqliteError\<rparr>, d)))"

text \<open>
  \<^verbatim>\<open>PATCH /api/reservations/:id\<close>: the UPDATE built from the body, then the row read
  back and sent (\<^verbatim>\<open>res.json(updated)\<close>, status 200, also when no row came back).
\<close>

definition patch_reservations :: "int \<Rightarrow> reservation_patch \<Rightarrow> db \<Rightarrow> response \<times> db" where
  "patch_reservations i p d =
     (case update_reservations i p d of
        Inl err \<Rightarrow> (\<lparr>code = 500, body = Json_error err\<rparr>, d)
      | Inr d' \<Rightarrow>
          (\<lparr>code = 200,
            body = (case select_reservation d' i of
                      None \<Rightarrow> Json_undefined | Some updated \<Rightarrow> Json_reservation updated)\<rparr>,
           d'))"

text \<open>\<^verbatim>\<open>DELETE /api/reservations/:id\<close> and \<^verbatim>\<open>DELETE /api/waitlist/:id\<close>.\<close>

definition delete_reservations :: "int \<Rightarrow> db \<Rightarrow> response \<times> db" where
  "delete_reservations i d = (\<lparr>code = 200, body = Json_ok\<rparr>, delete_reservation_rows i d)"




text \<open>
  \<^verbatim>\<open>PATCH /api/waitlist/:id\<close>:
  \<^verbatim>\<open>
  await runAsync(`UPDATE waitlist SET ... WHERE id = ?`, values);
  const updated = await getAsync(<select the waitlist row id>);
  const { court_id, player_id, start_time, end_time } = updated;
  const conflicts = await allAsync(<conflict query>, [court_id, start_time, end_time]);
  if (conflicts.length === 0) {
    const result = await runAsync('INSERT INTO reservations (court_id, player_id,
        start_time, end_time, status, price_cents) VALUES (?,?,?,?,?,?)',
      [court_id, player_id, start_time, end_time, 'booked', 0]);
    await runAsync('DELETE FROM waitlist WHERE id = ?', [id]);
    const row = await getAsync(<select the reservation result.lastID>);
    return res.status(201).json(row);
  }
  res.json(updated);
  \<close>
  Destructuring \<^verbatim>\<open>undefined\<close> throws a TypeError. The statements are not in a
  transaction: what ran before a throw stays.
\<close>

definition patch_waitlist :: "int \<Rightarrow> waitlist_patch \<Rightarrow> int \<Rightarrow> db \<Rightarrow> response \<times> db" where
  "patch_waitlist i p now d =
     (case update_waitlist i p d of
        Inl err \<Rightarrow> (\<lparr>code = 500, body = Json_error err\<rparr>, d)
      | Inr d1 \<Rightarrow>
          (case select_waitlist d1 i of
             None \<Rightarrow> (\<lparr>code = 500, body = Json_error TypeError\<rparr>, d1)
           | Some updated \<Rightarrow>
               let conflicts = select_conflicts d1 (w_court_id updated)
                                 (w_start_time updated) (w_end_time updated) in
               if length conflicts = 0 then
                 (case insert_reservation (w_court_id updated) (w_player_id updated)
                         (w_start_time updated) (w_end_time updated) ''booked'' 0 now d1 of
                    Inl err \<Rightarrow> (\<lparr>code = 500, body = Json_error err\<rparr>, d1)
                  | Inr (lastID, d2) \<Rightarrow>
                      let d3 = delete_waitlist_rows i d2 in
                      (\<lparr>code = 201,
                        body = (case select_reservation d3 lastID of
                                  None \<Rightarrow> Json_undefined | Some row \<Rightarrow> Json_reservation row)\<rparr>,
                       d3))
               else (\<lparr>code = 200, body = Json_waitlist updated\<rparr>, d1)))"

text \<open>
  Every statement of a handler is awaited, and between two awaits the server may run
  statements of another request. To follow two waitlist PATCH requests that interleave,
  the handler is cut after its conflict query: \<open>recheck_read\<close> is the part up to and
  with the query, \<open>recheck_write\<close> the part from \<^verbatim>\<open>if (conflicts.length === 0)\<close> on,
  and \<open>interleaved_rechecks\<close> is the schedule in which both requests read before either
  writes.
\<close>

definition recheck_read ::
  "int \<Rightarrow> waitlist_patch \<Rightarrow> db \<Rightarrow> (js_error + waitlist_entry \<times> int list) \<times> db" where
  "recheck_read i p d =
     (case update_waitlist i p d of
        Inl err \<Rightarrow> (Inl err, d)
      | Inr d1 \<Rightarrow>
          (case select_waitlist d1 i of
             None \<Rightarrow> (Inl TypeError, d1)
           | Some updated \<Rightarrow>
               (Inr (updated, select_conflicts d1 (w_court_id updated)
                                (w_start_time updated) (w_end_time updated)),
                d1)))"

definition recheck_write ::
  "int \<Rightarrow> waitlist_entry \<Rightarrow> int list \<Rightarrow> int \<Rightarrow> db \<Rightarrow> response \<times> db" where
  "recheck_write i updated conflicts now d =
     (if length conflicts = 0 then
        (case insert_reservation (w_court_id updated) (w_player_id updated)
                (w_start_time updated) (w_end_time updated) ''booked'' 0 now d of
           Inl err \<Rightarrow> (\<lparr>code = 500, body = Json_error err\<rparr>, d)
         | Inr (lastID, d2) \<Rightarrow>
             let d3 = delete_waitlist_rows i d2 in
             (\<lparr>code = 201,
               body = (case select_reservation d3 lastID of
                         None \<Rightarrow> Json_undefined | Some row \<Rightarrow> Json_reservation row)\<rparr>,
              d3))
      else (\<lparr>code = 200, body = Json_waitlist updated\<rparr>, d))"

definition interleaved_rechecks ::
  "int \<Rightarrow> waitlist_patch \<Rightarrow> int \<Rightarrow> int \<Rightarrow> waitlist_patch \<Rightarrow> int \<Rightarrow> db \<Rightarrow> db" where
  "interleaved_rechecks i p now j q now' d =
     (case recheck_read i p d of
        (Inl err, d1) \<Rightarrow> snd (patch_waitlist j q now' d1)
      | (Inr (updated, conflicts), d1) \<Rightarrow>
          (case recheck_read j q d1 of
             (Inl err, d2) \<Rightarrow> snd (recheck_write i updated conflicts now d2)
           | (Inr (updated', conflicts'), d2) \<Rightarrow>
               snd (recheck_write j updated' conflicts' now'
                      (snd (recheck_write i updated conflicts now d2)))))"

section \<open>The properties\<close>

text \<open>
  An active reservation is one that the conflict query counts. Two half-open intervals
  \<open>[s1, e1)\<close> and \<open>[s2, e2)\<close> overlap iff \<open>s1 < e2\<close> and \<open>s2 < e1\<close>. In
  \<open>overlap\<close> the bounds are the texts that \<^verbatim>\<open>datetime\<close> gives, in the order in which
  SQLite compares them; a time text that \<^verbatim>\<open>datetime\<close> turns into NULL bounds no interval
  and overlaps nothing.
\<close>

definition active :: "reservation \<Rightarrow> bool" where
  "active r = (r_status r = ''booked'' \<or> r_status r = ''completed'')"

definition overlap :: "string \<Rightarrow> string \<Rightarrow> string \<Rightarrow> string \<Rightarrow> bool" where
  "overlap s1 e1 s2 e2 = (s1 < e2 \<and> s2 < e1)"

definition intervals_overlap :: "timetext \<Rightarrow> timetext \<Rightarrow> timetext \<Rightarrow> timetext \<Rightarrow> bool" where
  "intervals_overlap s1 e1 s2 e2 =
     (case s1 of None \<Rightarrow> False | Some a \<Rightarrow>
      (case e1 of None \<Rightarrow> False | Some b \<Rightarrow>
       (case s2 of None \<Rightarrow> False | Some x \<Rightarrow>
        (case e2 of None \<Rightarrow> False | Some y \<Rightarrow> overlap a b x y))))"

definition clash :: "reservation \<Rightarrow> reservation \<Rightarrow> bool" where
  "clash r q =
     (r_court_id r = r_court_id q \<and> active r \<and> active q \<and>
      intervals_overlap (r_start_time r) (r_end_time r) (r_start_time q) (r_end_time q))"

text \<open>
  The instant that a text \<^verbatim>\<open>YYYY-MM-DD HH:MM:SS\<close> denotes, in seconds since 1970, as
  SQLite computes it from the six numbers (its Julian day arithmetic; what
  \<^verbatim>\<open>strftime('%s', ...)\<close> returns), for the years 0001 to 9999, where every number of the
  computation is positive; and the overlap of two intervals of instants.
\<close>

definition digit_value :: "char \<Rightarrow> int" where
  "digit_value c = of_char c - 48"

definition number_at :: "string \<Rightarrow> nat \<Rightarrow> nat \<Rightarrow> int" where
  "number_at s i n = foldl (\<lambda>a c. 10 * a + digit_value c) 0 (take n (drop i s))"

definition instant :: "string \<Rightarrow> int" where
  "instant s =
     (let y = number_at s 0 4; m = number_at s 5 2; d = number_at s 8 2;
          h = number_at s 11 2; mi = number_at s 14 2; sec = number_at s 17 2;
          Y = (if m \<le> 2 then y - 1 else y); M = (if m \<le> 2 then m + 12 else m);
          A = Y div 100; B = 2 - A + A div 4;
          X1 = 36525 * (Y + 4716) div 100; X2 = 306001 * (M + 1) div 10000
      in (2 * (X1 + X2 + d + B) - 3049) * 43200 + h * 3600 + mi * 60 + sec - 210866760000)"

definition instants_overlap :: "timetext \<Rightarrow> timetext \<Rightarrow> timetext \<Rightarrow> timetext \<Rightarrow> bool" where
  "instants_overlap s1 e1 s2 e2 =
     (case s1 of None \<Rightarrow> False | Some a \<Rightarrow>
      (case e1 of None \<Rightarrow> False | Some b \<Rightarrow>
       (case s2 of None \<Rightarrow> False | Some x \<Rightarrow>
        (case e2 of None \<Rightarrow> False | Some y \<Rightarrow>
           instant a < instant y \<and> instant x < instant b))))"

text \<open>No two rows of the table, at different positions, clash.\<close>

fun no_two_clash :: "reservation list \<Rightarrow> bool" where
  "no_two_clash [] = True"
| "no_two_clash (r # rs) = ((\<forall>q \<in> set rs. \<not> clash r q) \<and> no_two_clash rs)"

definition no_overlap :: "db \<Rightarrow> bool" where
  "no_overlap d = no_two_clash (reservations d)"

text \<open>A requested interval on a court overlaps some active reservation of that court.\<close>

definition request_overlaps :: "db \<Rightarrow> int \<Rightarrow> timetext \<Rightarrow> timetext \<Rightarrow> bool" where
  "request_overlaps d court_id start_time end_time =
     (\<exists>r \<in> set (reservations d).
        r_court_id r = court_id \<and> active r \<and>
        intervals_overlap start_time end_time (r_start_time r) (r_end_time r))"

text \<open>
  The row that the waitlist PATCH handler inserts into \<^verbatim>\<open>reservations\<close> for the entry
  \<open>w\<close> it read back: \<^verbatim>\<open>[court_id, player_id, start_time, end_time, 'booked', 0]\<close>.
\<close>

definition promoted_row :: "waitlist_entry \<Rightarrow> int \<Rightarrow> db \<Rightarrow> reservation" where
  "promoted_row w now d =
     \<lparr>r_id = next_rowid (reservations_seq d) (map r_id (reservations d)),
      r_court_id = w_court_id w, r_player_id = w_player_id w,
      r_start_time = w_start_time w, r_end_time = w_end_time w, r_status = ''booked'',
      r_price_cents = 0, r_created_at = now\<rparr>"

section \<open>Example data\<close>

definition ex_db :: "reservation list \<Rightarrow> waitlist_entry list \<Rightarrow> db" where
  "ex_db rs ws =
     \<lparr>courts = [\<lparr>c_id = 1, c_is_active = 1\<rparr>, \<lparr>c_id = 2, c_is_active = 0\<rparr>],
      players = [\<lparr>p_id = 1\<rparr>, \<lparr>p_id = 2\<rparr>],
      reservations = rs, reservations_seq = int (length rs),
      waitlist = ws, waitlist_seq = int (length ws)\<rparr>"

definition ex_booking :: "int \<Rightarrow> int \<Rightarrow> timetext \<Rightarrow> timetext \<Rightarrow> string \<Rightarrow> reservation" where
  "ex_booking i court_id start_time end_time status =
     \<lparr>r_id = i, r_court_id = court_id, r_player_id = 1, r_start_time = start_time,
      r_end_time = end_time, r_status = status, r_price_cents = 100000, r_created_at = 0\<rparr>"

definition ex_waiting :: "int \<Rightarrow> timetext \<Rightarrow> timetext \<Rightarrow> int \<Rightarrow> string \<Rightarrow> waitlist_entry" where
  "ex_waiting i start_time end_time priority status =
     \<lparr>w_id = i, w_court_id = 1, w_player_id = 2, w_start_time = start_time,
      w_end_time = end_time, w_priority = priority, w_status = status, w_created_at = 0\<rparr>"

definition ex_request :: "int \<Rightarrow> int \<Rightarrow> timetext \<Rightarrow> timetext \<Rightarrow> reservation_body" where
  "ex_request court_id player_id start_time end_time =
     \<lparr>b_court_id = court_id, b_player_id = player_id, b_start_time = start_time,
      b_end_time = end_time, b_price_cents = Some 100000, b_status = None\<rparr>"

definition no_reservation_patch :: reservation_patch where
  "no_reservation_patch =
     \<lparr>rp_court_id = None, rp_player_id = None, rp_start_time = None, rp_end_time = None,
      rp_status = None, rp_price_cents = None\<rparr>"

definition no_waitlist_patch :: waitlist_patch where
  "no_waitlist_patch =
     \<lparr>wp_court_id = None, wp_player_id = None, wp_start_time = None, wp_end_time = None,
      wp_priority = None, wp_status = None\<rparr>"




text \<open>Court 1 holds 10:30 to 11:30; player 2 asks for 10:00 to 11:00.\<close>

definition ex_held :: db where
  "ex_held = ex_db [ex_booking 1 1 (at 10 30) (at 11 30) ''booked''] []"

definition ex_ask :: reservation_body where
  "ex_ask = ex_request 1 2 (at 10 0) (at 11 0)"

text \<open>Two players wait for hours of court 1 that overlap; nothing is booked.\<close>

definition ex_two_waiting :: db where
  "ex_two_waiting =
     ex_db [] [ex_waiting 1 (at 9 0) (at 10 0) 0 ''waiting'',
               ex_waiting 2 (at 9 30) (at 10 30) 0 ''waiting'']"



definition ex_late_entry :: db where
  "ex_late_entry =
     ex_db [ex_booking 1 1 (next_day_at 0 0) (next_day_at 1 0) ''booked'']
           [ex_waiting 1 (at 23 0) (at 24 30) 0 ''waiting'']"

text \<open>Nothing is booked; player 1 asks for court 1 from 09:00 to 10:00.\<close>

definition ex_empty :: db where
  "ex_empty = ex_db [] []"

definition ex_ask_free :: reservation_body where
  "ex_ask_free = ex_request 1 1 (at 9 0) (at 10 0)"

text \<open>
  Court 1 holds 09:00 to 10:00; player 2 asks for the hour after it, 10:00 to 11:00.
\<close>

definition ex_morning :: db where
  "ex_morning = ex_db [ex_booking 1 1 (at 9 0) (at 10 0) ''booked''] []"

definition ex_ask_next :: reservation_body where
  "ex_ask_next = ex_request 1 2 (at 10 0) (at 11 0)"

text \<open>
  Court 1 holds 09:00 to 10:00 and two players wait for that hour, the later one with the
  higher priority. The patches set one column each.
\<close>

definition ex_queue :: db where
  "ex_queue =
     ex_db [ex_booking 1 1 (at 9 0) (at 10 0) ''booked'']
           [ex_waiting 1 (at 9 0) (at 10 0) 1 ''waiting'',
            ex_waiting 2 (at 9 0) (at 10 0) 5 ''waiting'']"

definition ex_cancel :: reservation_patch where
  "ex_cancel = no_reservation_patch\<lparr>rp_status := Some ''cancelled''\<rparr>"

definition ex_rebook :: reservation_patch where
  "ex_rebook = no_reservation_patch\<lparr>rp_status := Some ''booked''\<rparr>"

definition ex_recheck :: waitlist_patch where
  "ex_recheck = no_waitlist_patch\<lparr>wp_priority := Some 1\<rparr>"

text \<open>
  A waitlist entry for an hour that nothing holds, once with status \<^verbatim>\<open>waiting\<close> and
  once with status \<^verbatim>\<open>cancelled\<close>.
\<close>

definition ex_free_slot :: db where
  "ex_free_slot = ex_db [] [ex_waiting 1 (at 9 0) (at 10 0) 0 ''waiting'']"

definition ex_gave_up :: db where
  "ex_gave_up = ex_db [] [ex_waiting 1 (at 9 0) (at 10 0) 0 ''cancelled'']"

text \<open>A reservation that was cancelled, and one that was completed.\<close>

definition ex_was_cancelled :: db where
  "ex_was_cancelled = ex_db [ex_booking 1 1 (at 9 0) (at 10 0) ''cancelled''] []"

definition ex_was_completed :: db where
  "ex_was_completed = ex_db [ex_booking 1 1 (at 9 0) (at 10 0) ''completed''] []"

text \<open>
  Court 2 is not active and holds 09:00 to 10:00; the request is for court 2, by a player
  that is in no table, from 09:30 back to 09:15.
\<close>

definition ex_closed_court :: db where
  "ex_closed_court = ex_db [ex_booking 1 2 (at 9 0) (at 10 0) ''booked''] []"

definition ex_ask_backwards :: reservation_body where
  "ex_ask_backwards = ex_request 2 99 (at 9 30) (at 9 15)"

text \<open>
  The slot of \<open>ex_held\<close> after player 2's request was put on the waitlist and the
  reservation that held the slot was deleted.
\<close>

definition ex_freed :: db where
  "ex_freed = snd (delete_reservations 1 (snd (post_reservations ex_ask 7 ex_held)))"

section \<open>Unfolding the definitions\<close>

lemmas ex_defs = ex_db_def ex_booking_def ex_waiting_def ex_request_def at_def
  next_day_at_def two_digits_def digit_def
  no_reservation_patch_def no_waitlist_patch_def

lemmas overlap_defs = request_overlaps_def active_def intervals_overlap_def overlap_def

lemmas instant_defs = instants_overlap_def instant_def number_at_def digit_value_def

lemmas patch_reservations_defs = patch_reservations_def update_reservations_def
  reservation_patch_empty_def reservation_set_def set_column_def reservation_status_check_def
  select_reservation_def

section \<open>The conflict query decides overlap\<close>

text \<open>
  The WHERE clause of the conflict query is TRUE for a row exactly when the row is an active
  reservation of the court whose interval overlaps the requested one, in the half-open
  sense; so the query returns no row exactly when the request overlaps nothing.
\<close>

lemma conflict_where_iff:
  "is_true (conflict_where c s e r) \<longleftrightarrow>
     r_court_id r = c \<and> active r \<and> intervals_overlap s e (r_start_time r) (r_end_time r)"
  by (cases s; cases e; cases "r_start_time r"; cases "r_end_time r")
     (auto simp: conflict_where_def is_true_def sql_le_def sql_ge_def sql_and_def sql_or_def
        active_def intervals_overlap_def overlap_def)

lemma select_conflicts_empty_iff:
  "select_conflicts d c s e = [] \<longleftrightarrow> \<not> request_overlaps d c s e"
  by (auto simp: select_conflicts_def request_overlaps_def conflict_where_iff filter_empty_conv)

lemma intervals_overlap_sym:
  "intervals_overlap s1 e1 s2 e2 = intervals_overlap s2 e2 s1 e1"
  by (auto simp: intervals_overlap_def overlap_def split: option.splits)

lemma clash_sym: "clash r q = clash q r"
  using intervals_overlap_sym[of "r_start_time r" "r_end_time r" "r_start_time q" "r_end_time q"]
  by (auto simp: clash_def)




text \<open>The recursive reading of the invariant is the one over pairs of positions.\<close>

lemma no_two_clash_nth:
  "no_two_clash rs \<longleftrightarrow>
     (\<forall>i < length rs. \<forall>j < length rs. i \<noteq> j \<longrightarrow> \<not> clash (rs ! i) (rs ! j))"
proof (induction rs)
  case Nil
  then show ?case by simp
next
  case (Cons r rs)
  show ?case (is "?L = ?R")
  proof
    assume L: ?L
    show ?R
    proof (intro allI impI)
      fix i j assume ij: "i < length (r # rs)" "j < length (r # rs)" "i \<noteq> j"
      show "\<not> clash ((r # rs) ! i) ((r # rs) ! j)"
      proof (cases i)
        case 0
        with ij obtain j' where "j = Suc j'" "j' < length rs" by (cases j) auto
        with L 0 show ?thesis by auto
      next
        case (Suc i')
        show ?thesis
        proof (cases j)
          case 0
          with L Suc ij have "\<not> clash r (rs ! i')" by auto
          with 0 Suc show ?thesis by (simp add: clash_sym)
        next
          case (Suc j')
          with L \<open>i = Suc i'\<close> ij Cons.IH show ?thesis by auto
        qed
      qed
    qed
  next
    assume R: ?R
    have "\<not> clash r q" if "q \<in> set rs" for q
    proof -
      from that obtain j where "j < length rs" "rs ! j = q" by (auto simp: in_set_conv_nth)
      with R[rule_format, of 0 "Suc j"] show ?thesis by auto
    qed
    moreover have "no_two_clash rs"
      unfolding Cons.IH
    proof (intro allI impI)
      fix i j assume "i < length rs" "j < length rs" "i \<noteq> j"
      with R[rule_format, of "Suc i" "Suc j"] show "\<not> clash (rs ! i) (rs ! j)" by auto
    qed
    ultimately show ?L by simp
  qed
qed

text \<open>
  The order of the texts and the order of the instants part at hour 24: the text
  \<^verbatim>\<open>2026-11-02 24:30:00\<close> sorts before \<^verbatim>\<open>2026-11-03 00:00:00\<close> and denotes an instant half
  an hour after it (the numbers are those of \<^verbatim>\<open>strftime('%s', ...)\<close>).
\<close>

lemma hour_24_sorts_before_midnight:
  "''2026-11-02 24:30:00'' < ''2026-11-03 00:00:00'' \<and>
   instant ''2026-11-02 24:30:00'' = 1793665800 \<and>
   instant ''2026-11-03 00:00:00'' = 1793664000 \<and>
   instant ''2026-11-02 23:00:00'' = 1793660400 \<and>
   instant ''2026-11-03 01:00:00'' = 1793667600"
  by (simp add: instant_def number_at_def digit_value_def)

section \<open>The handlers, branch by branch\<close>

lemmas patch_waitlist_defs = patch_waitlist_def update_waitlist_def
  waitlist_patch_empty_def waitlist_set_def set_column_def waitlist_status_check_def
  select_waitlist_def select_conflicts_def conflict_where_iff insert_reservation_def
  reservation_status_check_def delete_waitlist_rows_def select_reservation_def next_rowid_def

lemma post_reservations_conflict:
  assumes "request_overlaps d (b_court_id b) (b_start_time b) (b_end_time b)"
  shows "post_reservations b now d =
     (\<lparr>code = 409,
       body = Json_message ''Court is already booked at this time. Added to waitlist.''\<rparr>,
      d\<lparr>waitlist := waitlist d @
           [\<lparr>w_id = next_rowid (waitlist_seq d) (map w_id (waitlist d)),
             w_court_id = b_court_id b, w_player_id = b_player_id b,
             w_start_time = b_start_time b, w_end_time = b_end_time b, w_priority = 0,
             w_status = ''waiting'', w_created_at = now\<rparr>],
         waitlist_seq := next_rowid (waitlist_seq d) (map w_id (waitlist d))\<rparr>)"
proof -
  from assms have "select_conflicts d (b_court_id b) (b_start_time b) (b_end_time b) \<noteq> []"
    by (simp add: select_conflicts_empty_iff)
  then show ?thesis
    by (simp add: post_reservations_def insert_waitlist_def waitlist_status_check_def Let_def)
qed

lemma post_reservations_free:
  assumes "\<not> request_overlaps d (b_court_id b) (b_start_time b) (b_end_time b)"
  shows "post_reservations b now d = (\<lparr>code = 500, body = Json_error ReferenceError\<rparr>, d)"
proof -
  from assms have "select_conflicts d (b_court_id b) (b_start_time b) (b_end_time b) = []"
    by (simp add: select_conflicts_empty_iff)
  then show ?thesis
    by (simp add: post_reservations_def payment_status_def)
qed



lemma update_waitlist_Inr:
  "update_waitlist i p d = Inr d1 \<Longrightarrow>
     d1 = d\<lparr>waitlist := map (\<lambda>w. if w_id w = i then waitlist_set p w else w) (waitlist d)\<rparr>"
  by (simp add: update_waitlist_def Let_def split: if_splits)

lemma update_reservations_Inr:
  "update_reservations i p d = Inr d1 \<Longrightarrow>
     d1 = d\<lparr>reservations := map (\<lambda>r. if r_id r = i then reservation_set p r else r) (reservations d)\<rparr>"
  by (simp add: update_reservations_def Let_def split: if_splits)

text \<open>The four ways through the waitlist PATCH handler.\<close>

lemma patch_waitlist_cases:
  obtains
    (rejected) err where "update_waitlist i p d = Inl err"
      "patch_waitlist i p now d = (\<lparr>code = 500, body = Json_error err\<rparr>, d)"
  | (missing) d1 where "update_waitlist i p d = Inr d1" "select_waitlist d1 i = None"
      "patch_waitlist i p now d = (\<lparr>code = 500, body = Json_error TypeError\<rparr>, d1)"
  | (promoted) d1 updated where "update_waitlist i p d = Inr d1"
      "select_waitlist d1 i = Some updated"
      "\<not> request_overlaps d1 (w_court_id updated) (w_start_time updated) (w_end_time updated)"
      "code (fst (patch_waitlist i p now d)) = 201"
      "snd (patch_waitlist i p now d) =
         d1\<lparr>reservations := reservations d1 @ [promoted_row updated now d1],
            reservations_seq := next_rowid (reservations_seq d1) (map r_id (reservations d1)),
            waitlist := filter (\<lambda>w. w_id w \<noteq> i) (waitlist d1)\<rparr>"
  | (waiting) d1 updated where "update_waitlist i p d = Inr d1"
      "select_waitlist d1 i = Some updated"
      "request_overlaps d1 (w_court_id updated) (w_start_time updated) (w_end_time updated)"
      "patch_waitlist i p now d = (\<lparr>code = 200, body = Json_waitlist updated\<rparr>, d1)"
proof (cases "update_waitlist i p d")
  case (Inl err)
  then show ?thesis using rejected by (simp add: patch_waitlist_def)
next
  case (Inr d1)
  show ?thesis
  proof (cases "select_waitlist d1 i")
    case None
    with Inr show ?thesis using missing by (simp add: patch_waitlist_def)
  next
    case (Some updated)
    show ?thesis
    proof (cases "request_overlaps d1 (w_court_id updated) (w_start_time updated) (w_end_time updated)")
      case True
      then have "select_conflicts d1 (w_court_id updated) (w_start_time updated) (w_end_time updated) \<noteq> []"
        by (simp add: select_conflicts_empty_iff)
      with Inr Some True show ?thesis using waiting[of d1 updated]
        by (simp add: patch_waitlist_def Let_def)
    next
      case False
      then have "select_conflicts d1 (w_court_id updated) (w_start_time updated) (w_end_time updated) = []"
        by (simp add: select_conflicts_empty_iff)
      with Inr Some False show ?thesis using promoted[of d1 updated]
        by (simp add: patch_waitlist_def Let_def insert_reservation_def
              reservation_status_check_def delete_waitlist_rows_def promoted_row_def)
    qed
  qed
qed

lemma patch_waitlist_read_write:
  "patch_waitlist i p now d =
     (case recheck_read i p d of
        (Inl err, d1) \<Rightarrow> (\<lparr>code = 500, body = Json_error err\<rparr>, d1)
      | (Inr (updated, conflicts), d1) \<Rightarrow> recheck_write i updated conflicts now d1)"
  by (simp add: patch_waitlist_def recheck_read_def recheck_write_def Let_def
        split: sum.splits option.splits)






lemma touching_not_selected:
  "\<not> is_true (conflict_where c (r_end_time r) e r)"
  by (simp add: conflict_where_iff intervals_overlap_def overlap_def split: option.splits)

lemma patch_reservations_waitlist:
  "waitlist (snd (patch_reservations i p d)) = waitlist d"
  by (cases "update_reservations i p d")
     (auto simp: patch_reservations_def dest: update_reservations_Inr)

lemma patch_reservations_length:
  "length (reservations (snd (patch_reservations i p d))) = length (reservations d)"
  by (cases "update_reservations i p d")
     (auto simp: patch_reservations_def dest: update_reservations_Inr)

lemma filter_update_others:
  "filter (\<lambda>w. w_id w \<noteq> i) (map (\<lambda>w. if w_id w = i then waitlist_set p w else w) ws) =
   filter (\<lambda>w. w_id w \<noteq> i) ws"
  by (induction ws) (auto simp: waitlist_set_def)

lemma patch_waitlist_others:
  "filter (\<lambda>w. w_id w \<noteq> i) (waitlist (snd (patch_waitlist i p now d))) =
   filter (\<lambda>w. w_id w \<noteq> i) (waitlist d)"
proof (cases rule: patch_waitlist_cases[of i p d now])
  case (rejected err)
  then show ?thesis by simp
next
  case (missing d1)
  then show ?thesis using update_waitlist_Inr[OF missing(1)] by (simp add: filter_update_others)
next
  case (promoted d1 updated)
  then show ?thesis using update_waitlist_Inr[OF promoted(1)] by (simp add: filter_update_others)
next
  case (waiting d1 updated)
  then show ?thesis using update_waitlist_Inr[OF waiting(1)] by (simp add: filter_update_others)
qed

lemma patch_waitlist_reservations:
  "(code (fst (patch_waitlist i p now d)) = 201 \<longrightarrow>
      (\<exists>w \<in> set (waitlist d). w_id w = i \<and>
         reservations (snd (patch_waitlist i p now d)) =
           reservations d @ [promoted_row (waitlist_set p w) now d])) \<and>
   (code (fst (patch_waitlist i p now d)) \<noteq> 201 \<longrightarrow>
      reservations (snd (patch_waitlist i p now d)) = reservations d)"
proof (cases rule: patch_waitlist_cases[of i p d now])
  case (rejected err)
  then show ?thesis by simp
next
  case (missing d1)
  then show ?thesis using update_waitlist_Inr[OF missing(1)] by simp
next
  case (promoted d1 updated)
  note d1 = update_waitlist_Inr[OF promoted(1)]
  from promoted(2) have "updated \<in> set (waitlist d1)" "w_id updated = i"
    by (auto simp: select_waitlist_def find_Some_iff)
  with d1 obtain w where w: "w \<in> set (waitlist d)" "w_id w = i" "updated = waitlist_set p w"
    by (auto split: if_splits)
  have "promoted_row updated now d1 = promoted_row updated now d"
    using d1 by (simp add: promoted_row_def)
  with w promoted(4,5) d1 show ?thesis by auto
next
  case (waiting d1 updated)
  then show ?thesis using update_waitlist_Inr[OF waiting(1)] by simp
qed

lemma patch_waitlist_201_deleted:
  assumes "code (fst (patch_waitlist i p now d)) = 201"
  shows "\<forall>w \<in> set (waitlist (snd (patch_waitlist i p now d))). w_id w \<noteq> i"
proof (cases rule: patch_waitlist_cases[of i p d now])
  case (rejected err)
  with assms show ?thesis by simp
next
  case (missing d1)
  with assms show ?thesis by simp
next
  case (promoted d1 updated)
  then show ?thesis by simp
next
  case (waiting d1 updated)
  with assms show ?thesis by simp
qed

lemma update_waitlist_no_row:
  assumes "\<forall>w \<in> set (waitlist d). w_id w \<noteq> i"
  shows "update_waitlist i p d = Inl SqliteError \<or> update_waitlist i p d = Inr d"
proof -
  have "map (\<lambda>w. if w_id w = i then waitlist_set p w else w) (waitlist d) = waitlist d"
    using assms by (simp add: map_idI)
  then show ?thesis using assms
    by (auto simp: update_waitlist_def Let_def)
qed

lemma patch_waitlist_no_row:
  assumes "\<forall>w \<in> set (waitlist d). w_id w \<noteq> i"
  shows "code (fst (patch_waitlist i p now d)) = 500 \<and> snd (patch_waitlist i p now d) = d"
proof -
  have "select_waitlist d i = None"
    using assms by (auto simp: select_waitlist_def find_None_iff)
  with update_waitlist_no_row[OF assms, of p] show ?thesis
    by (auto simp: patch_waitlist_def)
qed

lemma waitlist_set_idem: "waitlist_set p (waitlist_set p w) = waitlist_set p w"
  by (simp add: waitlist_set_def set_column_def split: option.splits)

lemma w_id_waitlist_set: "w_id (waitlist_set p w) = w_id w"
  by (simp add: waitlist_set_def)

lemma update_waitlist_again:
  assumes "update_waitlist i p d = Inr d1"
  shows "update_waitlist i p d1 = Inr d1"
proof -
  note d1 = update_waitlist_Inr[OF assms]
  let ?f = "\<lambda>w. if w_id w = i then waitlist_set p w else w"
  have idem: "map ?f (map ?f (waitlist d)) = map ?f (waitlist d)"
    by (simp add: waitlist_set_idem w_id_waitlist_set)
  from assms have ne: "\<not> waitlist_patch_empty p"
    and ok: "\<not> (\<exists>w \<in> set (map ?f (waitlist d)). w_id w = i \<and> \<not> waitlist_status_check (w_status w))"
    by (auto simp: update_waitlist_def Let_def split: if_splits)
  have "update_waitlist i p d1 =
     (if \<exists>w \<in> set (map ?f (waitlist d1)). w_id w = i \<and> \<not> waitlist_status_check (w_status w)
      then Inl SqliteError else Inr (d1\<lparr>waitlist := map ?f (waitlist d1)\<rparr>))"
    using ne by (simp add: update_waitlist_def Let_def)
  also have "map ?f (waitlist d1) = map ?f (waitlist d)"
    using idem by (simp add: d1)
  finally show ?thesis using ok by (simp add: d1)
qed

lemma patch_waitlist_200_again:
  assumes "code (fst (patch_waitlist i p now d)) = 200"
  shows "patch_waitlist i p now' (snd (patch_waitlist i p now d)) = patch_waitlist i p now d"
proof (cases rule: patch_waitlist_cases[of i p d now])
  case (rejected err)
  with assms show ?thesis by simp
next
  case (missing d1)
  with assms show ?thesis by simp
next
  case (promoted d1 updated)
  with assms show ?thesis by simp
next
  case (waiting d1 updated)
  then have "select_conflicts d1 (w_court_id updated) (w_start_time updated) (w_end_time updated) \<noteq> []"
    by (simp add: select_conflicts_empty_iff)
  with waiting update_waitlist_again[OF waiting(1)] show ?thesis
    by (simp add: patch_waitlist_def Let_def)
qed

lemma patch_waitlist_again:
  "snd (patch_waitlist i p now' (snd (patch_waitlist i p now d))) =
   snd (patch_waitlist i p now d)"
proof (cases rule: patch_waitlist_cases[of i p d now])
  case (rejected err)
  then show ?thesis by (simp add: patch_waitlist_def)
next
  case (missing d1)
  with update_waitlist_again[OF missing(1)] show ?thesis by (simp add: patch_waitlist_def)
next
  case (promoted d1 updated)
  then have "code (fst (patch_waitlist i p now d)) = 201" by simp
  from patch_waitlist_no_row[OF patch_waitlist_201_deleted[OF this]] show ?thesis by simp
next
  case (waiting d1 updated)
  then have "code (fst (patch_waitlist i p now d)) = 200" by simp
  from patch_waitlist_200_again[OF this] show ?thesis by simp
qed

lemma r_id_reservation_set: "r_id (reservation_set p r) = r_id r"
  by (simp add: reservation_set_def)

lemma r_status_reservation_set:
  "rp_status p = Some s \<Longrightarrow> r_status (reservation_set p r) = s"
  by (simp add: reservation_set_def set_column_def)

lemma update_reservations_status:
  assumes "reservation_status_check s" and "rp_status p = Some s"
  shows "update_reservations i p d =
     Inr (d\<lparr>reservations := map (\<lambda>r. if r_id r = i then reservation_set p r else r)
                                (reservations d)\<rparr>)"
proof -
  from assms(2) have "\<not> reservation_patch_empty p"
    by (simp add: reservation_patch_empty_def)
  moreover have "\<not> (\<exists>r \<in> set (map (\<lambda>r. if r_id r = i then reservation_set p r else r)
                          (reservations d)).
                    r_id r = i \<and> \<not> reservation_status_check (r_status r))"
    using assms by (auto simp: r_status_reservation_set)
  ultimately show ?thesis
    by (simp add: update_reservations_def Let_def)
qed

lemma request_overlaps_tables:
  "request_overlaps (d\<lparr>courts := cs, players := ps\<rparr>) c s e = request_overlaps d c s e"
  by (simp add: request_overlaps_def)

lemma ex_free_slot_201: "code (fst (patch_waitlist 1 ex_recheck 7 ex_free_slot)) = 201"
  by (simp add: ex_free_slot_def ex_recheck_def ex_defs patch_waitlist_defs overlap_defs Let_def)

lemma ex_ask_overlaps:
  "request_overlaps ex_held (b_court_id ex_ask) (b_start_time ex_ask) (b_end_time ex_ask)"
  by (simp add: request_overlaps_def ex_held_def ex_ask_def ex_db_def ex_booking_def
        ex_request_def at_def two_digits_def digit_def active_def intervals_overlap_def overlap_def)

lemma ex_freed_eq:
  "ex_freed = (ex_db [] [\<lparr>w_id = 1, w_court_id = 1, w_player_id = 2, w_start_time = at 10 0,
       w_end_time = at 11 0, w_priority = 0, w_status = ''waiting'', w_created_at = 7\<rparr>])
       \<lparr>reservations_seq := 1\<rparr>"
  using post_reservations_conflict[OF ex_ask_overlaps, of 7]
  by (simp add: ex_freed_def delete_reservations_def delete_reservation_rows_def
        ex_held_def ex_ask_def ex_defs next_rowid_def)

section \<open>The no-overlap invariant\<close>


text \<open>The seeded database has no two active reservations that overlap.\<close>

lemma init_no_overlap: "no_overlap (init now)"
  by (simp add: init_def no_overlap_def clash_def)




text \<open>
  The theorem is about the order of the texts. An entry that waits for 23:00 to 24:30 beside
  a reservation from 00:00 to 01:00 of the day after is promoted, since \<^verbatim>\<open>24:30:00\<close> of
  the one day sorts before \<^verbatim>\<open>00:00:00\<close> of the next: the two reservations do not overlap in
  the order of the texts and do overlap as intervals of instants.
\<close>

lemma promotion_past_midnight:
  "no_overlap ex_late_entry \<and>
   fst (patch_waitlist 1 ex_recheck 7 ex_late_entry) =
     \<lparr>code = 201,
      body = Json_reservation
        \<lparr>r_id = 2, r_court_id = 1, r_player_id = 2, r_start_time = at 23 0,
         r_end_time = at 24 30, r_status = ''booked'', r_price_cents = 0, r_created_at = 7\<rparr>\<rparr> \<and>
   no_overlap (snd (patch_waitlist 1 ex_recheck 7 ex_late_entry)) \<and>
   instants_overlap (at 23 0) (at 24 30) (next_day_at 0 0) (next_day_at 1 0)"
  by (simp add: ex_late_entry_def ex_recheck_def ex_defs patch_waitlist_defs overlap_defs
        instant_defs no_overlap_def clash_def Let_def)

text \<open>
  The theorem is also about requests that are handled one after the other. Two waitlist PATCH
  requests that interleave can both find no conflict and then both insert: from a database
  without reservations, the two reservations they create overlap.
\<close>

lemma interleaved_rechecks_overlap:
  "no_overlap ex_two_waiting \<and>
   reservations (interleaved_rechecks 1 ex_recheck 7 2 ex_recheck 8 ex_two_waiting) =
     [\<lparr>r_id = 1, r_court_id = 1, r_player_id = 2, r_start_time = at 9 0,
       r_end_time = at 10 0, r_status = ''booked'', r_price_cents = 0, r_created_at = 7\<rparr>,
      \<lparr>r_id = 2, r_court_id = 1, r_player_id = 2, r_start_time = at 9 30,
       r_end_time = at 10 30, r_status = ''booked'', r_price_cents = 0, r_created_at = 8\<rparr>] \<and>
   \<not> no_overlap (interleaved_rechecks 1 ex_recheck 7 2 ex_recheck 8 ex_two_waiting)"
  by (simp add: interleaved_rechecks_def recheck_read_def recheck_write_def
        ex_two_waiting_def ex_recheck_def ex_defs
        update_waitlist_def waitlist_patch_empty_def waitlist_set_def set_column_def
        waitlist_status_check_def select_waitlist_def select_conflicts_def
        insert_reservation_def reservation_status_check_def next_rowid_def
        delete_waitlist_rows_def no_overlap_def clash_def active_def intervals_overlap_def
        overlap_def Let_def)

section \<open>A request that conflicts\<close>




section \<open>A request for a free slot\<close>

text \<open>
  Claim C2 says that a request that overlaps no active reservation of its court inserts a
  reservation with status \<^verbatim>\<open>booked\<close> and gets it back. The handler never comes to its
  INSERT: the argument list reads the unbound name \<^verbatim>\<open>payment_status\<close>, and the request
  is answered 500 with the database as it was.
\<close>

theorem C2_free_slot_request_fails:
  assumes "\<not> request_overlaps d (b_court_id b) (b_start_time b) (b_end_time b)"
  shows "post_reservations b now d = (\<lparr>code = 500, body = Json_error ReferenceError\<rparr>, d)"
  using assms by (rule post_reservations_free)

theorem C2_free_slot_request_fails_witness:
  "\<not> request_overlaps ex_empty (b_court_id ex_ask_free) (b_start_time ex_ask_free)
        (b_end_time ex_ask_free) \<and>
   post_reservations ex_ask_free 7 ex_empty =
     (\<lparr>code = 500, body = Json_error ReferenceError\<rparr>, ex_empty) \<and>
   reservations (snd (post_reservations ex_ask_free 7 ex_empty)) = []"
proof -
  have h: "\<not> request_overlaps ex_empty (b_court_id ex_ask_free) (b_start_time ex_ask_free)
        (b_end_time ex_ask_free)"
    by (simp add: ex_empty_def ex_defs overlap_defs)
  show ?thesis
    using h C2_free_slot_request_fails[OF h, of 7] by (simp add: ex_empty_def ex_defs)
qed

text \<open>
  Claim C7 says that a request that starts exactly where an active reservation of its court
  ends is no conflict and succeeds. The conflict query indeed never selects a reservation
  for a request that starts at its end; but when no other reservation overlaps the request
  either, the request takes the branch of claim C2 and is answered 500.
\<close>

theorem C7_back_to_back_request_fails:
  "\<not> is_true (conflict_where c (r_end_time r) e r) \<and>
   (b_start_time b = r_end_time r \<and>
    (\<forall>q \<in> set (reservations d). q \<noteq> r \<longrightarrow>
       \<not> (r_court_id q = b_court_id b \<and> active q \<and>
          intervals_overlap (b_start_time b) (b_end_time b) (r_start_time q) (r_end_time q)))
    \<longrightarrow> select_conflicts d (b_court_id b) (b_start_time b) (b_end_time b) = [] \<and>
        post_reservations b now d = (\<lparr>code = 500, body = Json_error ReferenceError\<rparr>, d))"
proof -
  have "\<not> request_overlaps d (b_court_id b) (b_start_time b) (b_end_time b)"
    if t: "b_start_time b = r_end_time r"
      and o: "\<forall>q \<in> set (reservations d). q \<noteq> r \<longrightarrow>
         \<not> (r_court_id q = b_court_id b \<and> active q \<and>
          intervals_overlap (b_start_time b) (b_end_time b) (r_start_time q) (r_end_time q))"
  proof
    assume "request_overlaps d (b_court_id b) (b_start_time b) (b_end_time b)"
    then obtain q where q: "q \<in> set (reservations d)"
      "is_true (conflict_where (b_court_id b) (b_start_time b) (b_end_time b) q)"
      by (auto simp: request_overlaps_def conflict_where_iff)
    show False
    proof (cases "q = r")
      case True
      with q(2) t touching_not_selected[of "b_court_id b" r "b_end_time b"] show False by simp
    next
      case False
      with q o show False by (simp add: conflict_where_iff)
    qed
  qed
  then have "select_conflicts d (b_court_id b) (b_start_time b) (b_end_time b) = [] \<and>
      post_reservations b now d = (\<lparr>code = 500, body = Json_error ReferenceError\<rparr>, d)"
    if "b_start_time b = r_end_time r"
      and "\<forall>q \<in> set (reservations d). q \<noteq> r \<longrightarrow>
         \<not> (r_court_id q = b_court_id b \<and> active q \<and>
          intervals_overlap (b_start_time b) (b_end_time b) (r_start_time q) (r_end_time q))"
    using that by (simp only: select_conflicts_empty_iff post_reservations_free simp_thms)
  with touching_not_selected[of c r e] show ?thesis by blast
qed

theorem C7_back_to_back_request_fails_witness:
  "b_start_time ex_ask_next = r_end_time (ex_booking 1 1 (at 9 0) (at 10 0) ''booked'') \<and>
   reservations ex_morning = [ex_booking 1 1 (at 9 0) (at 10 0) ''booked''] \<and>
   select_conflicts ex_morning 1 (at 10 0) (at 11 0) = [] \<and>
   post_reservations ex_ask_next 7 ex_morning =
     (\<lparr>code = 500, body = Json_error ReferenceError\<rparr>, ex_morning)"
  using C7_back_to_back_request_fails[of 1 "ex_booking 1 1 (at 9 0) (at 10 0) ''booked''"
          "at 11 0" ex_ask_next ex_morning 7]
  by (simp add: ex_morning_def ex_ask_next_def ex_defs)

section \<open>Cancelling and the waitlist\<close>

text \<open>
  Claim C4 says that cancelling a booking starts a promotion sweep over the waiting entries
  of the freed slot, by priority and then age. Neither the reservation PATCH handler nor
  the reservation DELETE handler touches the waitlist or inserts a reservation: with two
  players waiting for the hour, cancelling or deleting the reservation that holds it leaves
  both waiting and books nothing.
\<close>

theorem C4_cancelling_promotes_nothing:
  "snd (patch_reservations 1 ex_cancel ex_queue) =
     ex_db [ex_booking 1 1 (at 9 0) (at 10 0) ''cancelled'']
           [ex_waiting 1 (at 9 0) (at 10 0) 1 ''waiting'',
            ex_waiting 2 (at 9 0) (at 10 0) 5 ''waiting''] \<and>
   snd (delete_reservations 1 ex_queue) =
     (ex_db [] [ex_waiting 1 (at 9 0) (at 10 0) 1 ''waiting'',
                ex_waiting 2 (at 9 0) (at 10 0) 5 ''waiting''])\<lparr>reservations_seq := 1\<rparr>"
  by (simp add: ex_queue_def ex_cancel_def ex_defs patch_reservations_defs Let_def
        delete_reservations_def delete_reservation_rows_def)

text \<open>
  Claim C4, amended: \<^verbatim>\<open>PATCH\<close> and \<^verbatim>\<open>DELETE /api/reservations/:id\<close> leave the waitlist
  as it is and add no reservation; the one handler that promotes is
  \<^verbatim>\<open>PATCH /api/waitlist/:id\<close>, which leaves every waitlist row with another id as it is and
  adds at most one reservation.
\<close>

theorem C4_cancel_leaves_waitlist:
  "waitlist (snd (patch_reservations i p d)) = waitlist d \<and>
   length (reservations (snd (patch_reservations i p d))) = length (reservations d) \<and>
   waitlist (snd (delete_reservations i d)) = waitlist d \<and>
   reservations (snd (delete_reservations i d)) = filter (\<lambda>r. r_id r \<noteq> i) (reservations d) \<and>
   filter (\<lambda>w. w_id w \<noteq> j) (waitlist (snd (patch_waitlist j wp now d))) =
     filter (\<lambda>w. w_id w \<noteq> j) (waitlist d) \<and>
   length (reservations (snd (patch_waitlist j wp now d))) \<le> length (reservations d) + 1"
proof -
  have "length (reservations (snd (patch_waitlist j wp now d))) \<le> length (reservations d) + 1"
    using patch_waitlist_reservations[of j wp now d]
    by (cases "code (fst (patch_waitlist j wp now d)) = 201") auto
  then show ?thesis
    by (simp add: patch_reservations_waitlist patch_reservations_length patch_waitlist_others
          delete_reservations_def delete_reservation_rows_def)
qed

theorem C4_cancel_leaves_waitlist_witness:
  "waitlist (snd (patch_reservations 1 ex_cancel ex_queue)) =
     [ex_waiting 1 (at 9 0) (at 10 0) 1 ''waiting'', ex_waiting 2 (at 9 0) (at 10 0) 5 ''waiting''] \<and>
   length (reservations (snd (patch_reservations 1 ex_cancel ex_queue))) = 1 \<and>
   filter (\<lambda>w. w_id w \<noteq> 1) (waitlist (snd (patch_waitlist 1 ex_recheck 7
       (snd (patch_reservations 1 ex_cancel ex_queue))))) =
     [ex_waiting 2 (at 9 0) (at 10 0) 5 ''waiting'']"
  using C4_cancel_leaves_waitlist[of 1 ex_cancel ex_queue 1 ex_recheck 7]
        C4_cancel_leaves_waitlist[of 1 ex_cancel "snd (patch_reservations 1 ex_cancel ex_queue)" 1 ex_recheck 7]
  by (simp add: ex_queue_def ex_defs)

section \<open>Promotion\<close>

text \<open>
  Claim C5 says that a promoted waitlist entry is kept, with status \<^verbatim>\<open>booked\<close>. The
  handler deletes it: after the promotion the waitlist is empty.
\<close>

theorem C5_promoted_entry_is_deleted:
  "patch_waitlist 1 ex_recheck 7 ex_free_slot =
     (\<lparr>code = 201,
       body = Json_reservation
         \<lparr>r_id = 1, r_court_id = 1, r_player_id = 2, r_start_time = at 9 0,
          r_end_time = at 10 0, r_status = ''booked'', r_price_cents = 0, r_created_at = 7\<rparr>\<rparr>,
      (ex_db [\<lparr>r_id = 1, r_court_id = 1, r_player_id = 2, r_start_time = at 9 0,
          r_end_time = at 10 0, r_status = ''booked'', r_price_cents = 0, r_created_at = 7\<rparr>]
          [])\<lparr>waitlist_seq := 1\<rparr>)"
  by (simp add: ex_free_slot_def ex_recheck_def ex_defs patch_waitlist_defs overlap_defs Let_def)

text \<open>
  Claim C5, amended: when \<^verbatim>\<open>PATCH /api/waitlist/:id\<close> promotes (status 201), the
  reservations gain one row, made from a waitlist row with that id as the patch left it,
  and no waitlist row with that id remains.
\<close>

theorem C5_promotion_deletes_entry:
  assumes "code (fst (patch_waitlist i p now d)) = 201"
  shows "(\<exists>w \<in> set (waitlist d). w_id w = i \<and>
            reservations (snd (patch_waitlist i p now d)) =
              reservations d @ [promoted_row (waitlist_set p w) now d]) \<and>
         (\<forall>w \<in> set (waitlist (snd (patch_waitlist i p now d))). w_id w \<noteq> i)"
  using assms patch_waitlist_reservations[of i p now d] patch_waitlist_201_deleted[OF assms]
  by blast

theorem C5_promotion_deletes_entry_witness:
  "code (fst (patch_waitlist 1 ex_recheck 7 ex_free_slot)) = 201 \<and>
   reservations (snd (patch_waitlist 1 ex_recheck 7 ex_free_slot)) =
     [\<lparr>r_id = 1, r_court_id = 1, r_player_id = 2, r_start_time = at 9 0,
       r_end_time = at 10 0, r_status = ''booked'', r_price_cents = 0, r_created_at = 7\<rparr>] \<and>
   filter (\<lambda>w. w_id w = 1) (waitlist (snd (patch_waitlist 1 ex_recheck 7 ex_free_slot))) = []"
proof -
  have "filter (\<lambda>w. w_id w = 1) (waitlist (snd (patch_waitlist 1 ex_recheck 7 ex_free_slot))) = []"
    using C5_promotion_deletes_entry[OF ex_free_slot_201] by (simp add: filter_empty_conv)
  moreover have "reservations (snd (patch_waitlist 1 ex_recheck 7 ex_free_slot)) =
     [\<lparr>r_id = 1, r_court_id = 1, r_player_id = 2, r_start_time = at 9 0,
       r_end_time = at 10 0, r_status = ''booked'', r_price_cents = 0, r_created_at = 7\<rparr>]"
    using C5_promotion_deletes_entry[OF ex_free_slot_201]
    by (simp add: ex_free_slot_def ex_recheck_def ex_defs promoted_row_def waitlist_set_def
          set_column_def next_rowid_def)
  ultimately show ?thesis using ex_free_slot_201 by simp
qed

text \<open>
  Claim C6 says that promotion is idempotent because it considers entries with status
  \<^verbatim>\<open>waiting\<close> only. The handler never reads the status of the entry: an entry with
  status \<^verbatim>\<open>cancelled\<close> whose hour is free is promoted.
\<close>

theorem C6_cancelled_entry_is_promoted:
  "waitlist ex_gave_up = [ex_waiting 1 (at 9 0) (at 10 0) 0 ''cancelled''] \<and>
   patch_waitlist 1 ex_recheck 7 ex_gave_up =
     (\<lparr>code = 201,
       body = Json_reservation
         \<lparr>r_id = 1, r_court_id = 1, r_player_id = 2, r_start_time = at 9 0,
          r_end_time = at 10 0, r_status = ''booked'', r_price_cents = 0, r_created_at = 7\<rparr>\<rparr>,
      (ex_db [\<lparr>r_id = 1, r_court_id = 1, r_player_id = 2, r_start_time = at 9 0,
          r_end_time = at 10 0, r_status = ''booked'', r_price_cents = 0, r_created_at = 7\<rparr>]
          [])\<lparr>waitlist_seq := 1\<rparr>)"
  by (simp add: ex_gave_up_def ex_recheck_def ex_defs patch_waitlist_defs overlap_defs Let_def)

text \<open>
  Claim C6, amended: running \<^verbatim>\<open>PATCH /api/waitlist/:id\<close> again with the same body on the
  database it left changes nothing more, so it promotes nothing new; and after a promotion
  no waitlist row with that id is left, so that any further PATCH of that id is answered
  500 and changes nothing.
\<close>

theorem C6_second_recheck_promotes_nothing:
  "snd (patch_waitlist i p now' (snd (patch_waitlist i p now d))) =
     snd (patch_waitlist i p now d) \<and>
   (code (fst (patch_waitlist i p now d)) = 201 \<longrightarrow>
      (\<forall>w \<in> set (waitlist (snd (patch_waitlist i p now d))). w_id w \<noteq> i) \<and>
      code (fst (patch_waitlist i p' now' (snd (patch_waitlist i p now d)))) = 500 \<and>
      snd (patch_waitlist i p' now' (snd (patch_waitlist i p now d))) =
        snd (patch_waitlist i p now d))"
  using patch_waitlist_no_row[OF patch_waitlist_201_deleted, of i p now d p' now']
        patch_waitlist_201_deleted[of i p now d]
        patch_waitlist_again[of i p now' now d]
  by blast

theorem C6_second_recheck_promotes_nothing_witness:
  "code (fst (patch_waitlist 1 ex_recheck 7 ex_free_slot)) = 201 \<and>
   waitlist (snd (patch_waitlist 1 ex_recheck 7 ex_free_slot)) = [] \<and>
   code (fst (patch_waitlist 1 ex_recheck 8
                (snd (patch_waitlist 1 ex_recheck 7 ex_free_slot)))) = 500 \<and>
   reservations (snd (patch_waitlist 1 ex_recheck 8
                        (snd (patch_waitlist 1 ex_recheck 7 ex_free_slot)))) =
     [\<lparr>r_id = 1, r_court_id = 1, r_player_id = 2, r_start_time = at 9 0,
       r_end_time = at 10 0, r_status = ''booked'', r_price_cents = 0, r_created_at = 7\<rparr>]"
proof -
  have a: "code (fst (patch_waitlist 1 ex_recheck 7 ex_free_slot)) = 201"
    and r: "reservations (snd (patch_waitlist 1 ex_recheck 7 ex_free_slot)) =
     [\<lparr>r_id = 1, r_court_id = 1, r_player_id = 2, r_start_time = at 9 0,
       r_end_time = at 10 0, r_status = ''booked'', r_price_cents = 0, r_created_at = 7\<rparr>]"
    and w: "waitlist (snd (patch_waitlist 1 ex_recheck 7 ex_free_slot)) = []"
    by (simp_all add: ex_free_slot_def ex_recheck_def ex_defs patch_waitlist_defs overlap_defs
          Let_def)
  show ?thesis
    using a r w C6_second_recheck_promotes_nothing[of 1 ex_recheck 8 7 ex_free_slot ex_recheck]
    by simp
qed

text \<open>
  Claim C10: a reservation that \<^verbatim>\<open>PATCH /api/waitlist/:id\<close> creates has status
  \<^verbatim>\<open>booked\<close> and price 0, whatever the entry and the patch hold; the handler creates one
  exactly when it answers 201 and leaves the reservations as they are otherwise.
\<close>

theorem C10_promoted_booking_is_free:
  "(code (fst (patch_waitlist i p now d)) = 201 \<longrightarrow>
      (\<exists>r. reservations (snd (patch_waitlist i p now d)) = reservations d @ [r] \<and>
           r_status r = ''booked'' \<and> r_price_cents r = 0)) \<and>
   (code (fst (patch_waitlist i p now d)) \<noteq> 201 \<longrightarrow>
      reservations (snd (patch_waitlist i p now d)) = reservations d)"
proof -
  have "r_status (promoted_row w now d) = ''booked'' \<and> r_price_cents (promoted_row w now d) = 0"
    for w by (simp add: promoted_row_def)
  with patch_waitlist_reservations[of i p now d] show ?thesis by blast
qed

theorem C10_promoted_booking_is_free_witness:
  "b_price_cents ex_ask = Some 100000 \<and>
   code (fst (patch_waitlist 1 ex_recheck 9 ex_freed)) = 201 \<and>
   reservations (snd (patch_waitlist 1 ex_recheck 9 ex_freed)) =
     [\<lparr>r_id = 2, r_court_id = 1, r_player_id = 2, r_start_time = at 10 0,
       r_end_time = at 11 0, r_status = ''booked'', r_price_cents = 0, r_created_at = 9\<rparr>]"
proof -
  have a: "code (fst (patch_waitlist 1 ex_recheck 9 ex_freed)) = 201"
    and r: "reservations (snd (patch_waitlist 1 ex_recheck 9 ex_freed)) =
     [\<lparr>r_id = 2, r_court_id = 1, r_player_id = 2, r_start_time = at 10 0,
       r_end_time = at 11 0, r_status = ''booked'', r_price_cents = 0, r_created_at = 9\<rparr>]"
    by (simp_all add: ex_freed_eq ex_recheck_def ex_defs patch_waitlist_defs overlap_defs Let_def)
  show ?thesis
    using a r C10_promoted_booking_is_free[of 1 ex_recheck 9 ex_freed]
    by (simp add: ex_ask_def ex_defs)
qed

section \<open>Status changes of a reservation\<close>

text \<open>
  Claim C8 says that cancelling fails with InvalidTransition unless the reservation is
  \<^verbatim>\<open>booked\<close>, and that nothing leaves \<^verbatim>\<open>cancelled\<close> or \<^verbatim>\<open>completed\<close>. The PATCH
  handler writes the status it is given: a cancelled reservation becomes booked again, and
  a completed one is cancelled, both with status 200.
\<close>

theorem C8_cancelled_becomes_booked:
  "patch_reservations 1 ex_rebook ex_was_cancelled =
     (\<lparr>code = 200, body = Json_reservation (ex_booking 1 1 (at 9 0) (at 10 0) ''booked'')\<rparr>,
      ex_db [ex_booking 1 1 (at 9 0) (at 10 0) ''booked''] []) \<and>
   patch_reservations 1 ex_cancel ex_was_completed =
     (\<lparr>code = 200, body = Json_reservation (ex_booking 1 1 (at 9 0) (at 10 0) ''cancelled'')\<rparr>,
      ex_db [ex_booking 1 1 (at 9 0) (at 10 0) ''cancelled''] [])"
  by (simp add: ex_was_cancelled_def ex_was_completed_def ex_rebook_def ex_cancel_def ex_defs
        patch_reservations_defs Let_def)

text \<open>
  Claim C8, amended: \<^verbatim>\<open>PATCH /api/reservations/:id\<close> with a status that the CHECK
  constraint admits (\<^verbatim>\<open>booked\<close>, \<^verbatim>\<open>cancelled\<close>, \<^verbatim>\<open>completed\<close>) is answered 200 and
  sets that status on the reservation with that id, whatever its status was before.
\<close>

theorem C8_patch_sets_any_status:
  assumes "reservation_status_check s" and "rp_status p = Some s"
  shows "code (fst (patch_reservations i p d)) = 200 \<and>
         reservations (snd (patch_reservations i p d)) =
           map (\<lambda>r. if r_id r = i then reservation_set p r else r) (reservations d) \<and>
         (\<forall>r \<in> set (reservations (snd (patch_reservations i p d))).
            r_id r = i \<longrightarrow> r_status r = s)"
proof -
  note u = update_reservations_status[OF assms, of i d]
  have c: "code (fst (patch_reservations i p d)) = 200"
    by (simp add: patch_reservations_def u)
  have r: "reservations (snd (patch_reservations i p d)) =
      map (\<lambda>r. if r_id r = i then reservation_set p r else r) (reservations d)"
    by (simp add: patch_reservations_def u)
  have q: "\<forall>q \<in> set (reservations (snd (patch_reservations i p d))).
             r_id q = i \<longrightarrow> r_status q = s"
    unfolding r
  proof (intro ballI impI)
    fix q
    assume m: "q \<in> set (map (\<lambda>r. if r_id r = i then reservation_set p r else r) (reservations d))"
      and i: "r_id q = i"
    from m obtain r where q: "q = (if r_id r = i then reservation_set p r else r)"
      unfolding set_map by (rule imageE)
    have "q = reservation_set p r"
    proof (cases "r_id r = i")
      case True
      with q show ?thesis by simp
    next
      case False
      with q i show ?thesis by simp
    qed
    then show "r_status q = s" by (simp add: r_status_reservation_set[OF assms(2)])
  qed
  show ?thesis by (rule conjI[OF c conjI[OF r q]])
qed

theorem C8_patch_sets_any_status_witness:
  "reservation_status_check ''booked'' \<and> rp_status ex_rebook = Some ''booked'' \<and>
   code (fst (patch_reservations 1 ex_rebook ex_was_completed)) = 200 \<and>
   reservations (snd (patch_reservations 1 ex_rebook ex_was_completed)) =
     [ex_booking 1 1 (at 9 0) (at 10 0) ''booked'']"
proof -
  have a: "reservation_status_check ''booked''" by (simp add: reservation_status_check_def)
  have b: "rp_status ex_rebook = Some ''booked''" by (simp add: ex_rebook_def)
  show ?thesis
    using a b C8_patch_sets_any_status[OF a b, of 1 ex_was_completed]
    by (simp add: ex_was_completed_def ex_rebook_def ex_defs reservation_set_def set_column_def)
qed

section \<open>Validation of a request\<close>

text \<open>
  Claim C9 says that a request for a court that is not active, by a player that does not
  exist, or with a start not before its end fails with NotFound or InvalidInterval before
  any conflict check, and creates nothing. The handler goes to the conflict query at once:
  a request that is all three is answered 409 and put on the waitlist.
\<close>

theorem C9_invalid_request_is_queued:
  "c_is_active (courts ex_closed_court ! 1) = 0 \<and>
   b_court_id ex_ask_backwards = c_id (courts ex_closed_court ! 1) \<and>
   players ex_closed_court = [\<lparr>p_id = 1\<rparr>, \<lparr>p_id = 2\<rparr>] \<and>
   b_player_id ex_ask_backwards = 99 \<and>
   b_start_time ex_ask_backwards = Some ''2026-11-02 09:30:00'' \<and>
   b_end_time ex_ask_backwards = Some ''2026-11-02 09:15:00'' \<and>
   post_reservations ex_ask_backwards 7 ex_closed_court =
     (\<lparr>code = 409,
       body = Json_message ''Court is already booked at this time. Added to waitlist.''\<rparr>,
      ex_db [ex_booking 1 2 (at 9 0) (at 10 0) ''booked'']
        [\<lparr>w_id = 1, w_court_id = 2, w_player_id = 99, w_start_time = at 9 30,
          w_end_time = at 9 15, w_priority = 0, w_status = ''waiting'', w_created_at = 7\<rparr>])"
  by (simp add: ex_closed_court_def ex_ask_backwards_def ex_defs post_reservations_def
        select_conflicts_def conflict_where_iff overlap_defs insert_waitlist_def
        waitlist_status_check_def next_rowid_def Let_def)

text \<open>
  Claim C9, amended: \<^verbatim>\<open>POST /api/reservations\<close> validates nothing. Its status is 201, 409
  or 500; it is 409 exactly when the requested interval overlaps an active reservation of
  the court, overlap being decided on the texts that \<^verbatim>\<open>datetime\<close> gives in SQLite's text
  order; and then the answer is the same and the waitlist gains the same one row, with
  status \<^verbatim>\<open>waiting\<close> and the court, player and times of the request, whatever the
  \<^verbatim>\<open>courts\<close> and \<^verbatim>\<open>players\<close> tables hold and whether or not the start is before the
  end.
\<close>

theorem C9_no_validation:
  "code (fst (post_reservations b now d)) \<in> {201, 409, 500} \<and>
   (code (fst (post_reservations b now d)) = 409 \<longleftrightarrow>
      request_overlaps d (b_court_id b) (b_start_time b) (b_end_time b)) \<and>
   (request_overlaps d (b_court_id b) (b_start_time b) (b_end_time b) \<longrightarrow>
      post_reservations b now (d\<lparr>courts := cs, players := ps\<rparr>) =
        (fst (post_reservations b now d),
         (snd (post_reservations b now d))\<lparr>courts := cs, players := ps\<rparr>) \<and>
      waitlist (snd (post_reservations b now d)) =
        waitlist d @
          [\<lparr>w_id = next_rowid (waitlist_seq d) (map w_id (waitlist d)),
            w_court_id = b_court_id b, w_player_id = b_player_id b,
            w_start_time = b_start_time b, w_end_time = b_end_time b, w_priority = 0,
            w_status = ''waiting'', w_created_at = now\<rparr>])"
proof (cases "request_overlaps d (b_court_id b) (b_start_time b) (b_end_time b)")
  case True
  then have "request_overlaps (d\<lparr>courts := cs, players := ps\<rparr>)
               (b_court_id b) (b_start_time b) (b_end_time b)"
    by (simp add: request_overlaps_tables)
  from post_reservations_conflict[OF this, of now] post_reservations_conflict[OF True, of now] True
  show ?thesis by simp
next
  case False
  then show ?thesis by (simp add: post_reservations_free)
qed

theorem C9_no_validation_witness:
  "request_overlaps ex_closed_court (b_court_id ex_ask_backwards)
     (b_start_time ex_ask_backwards) (b_end_time ex_ask_backwards) \<and>
   code (fst (post_reservations ex_ask_backwards 7 ex_closed_court)) = 409 \<and>
   waitlist (snd (post_reservations ex_ask_backwards 7 ex_closed_court)) =
     [\<lparr>w_id = 1, w_court_id = 2, w_player_id = 99, w_start_time = at 9 30,
       w_end_time = at 9 15, w_priority = 0, w_status = ''waiting'', w_created_at = 7\<rparr>] \<and>
   post_reservations ex_ask_backwards 7 (ex_closed_court\<lparr>courts := [], players := []\<rparr>) =
     (fst (post_reservations ex_ask_backwards 7 ex_closed_court),
      (snd (post_reservations ex_ask_backwards 7 ex_closed_court))\<lparr>courts := [], players := []\<rparr>)"
proof -
  have h: "request_overlaps ex_closed_court (b_court_id ex_ask_backwards)
     (b_start_time ex_ask_backwards) (b_end_time ex_ask_backwards)"
    by (simp add: ex_closed_court_def ex_ask_backwards_def ex_defs overlap_defs)
  have w: "waitlist ex_closed_court = []" "waitlist_seq ex_closed_court = 0"
    by (simp_all add: ex_closed_court_def ex_defs)
  show ?thesis
    using h w C9_no_validation[of ex_ask_backwards 7 ex_closed_court "[]" "[]"]
    by (simp add: ex_ask_backwards_def ex_request_def next_rowid_def)
qed

end
